theory Spec2Isabelle
  imports Main
begin

section \<open>JavaScript values\<close>

text \<open>
  The builders take arguments of Flow type \<open>any\<close> and test them at run time, so the
  model needs the dynamically typed values of JavaScript. Numbers are kept as integers
  (no claim depends on fractions or NaN). An object literal is the list of its
  properties in insertion order. \<open>JImm v\<close> is the Immutable.js collection
  \<open>fromJS(v)\<close> of the plain object or array \<open>v\<close>.
\<close>

datatype jsval =
    JUndefined
  | JNull
  | JBool bool
  | JNum int
  | JStr string
  | JArr "jsval list"
  | JObj "(string \<times> jsval) list"
  | JImm jsval

text \<open>ToBoolean of the language: what \<open>!x\<close> and \<open>if (x)\<close> test.\<close>

fun truthy :: "jsval \<Rightarrow> bool" where
  "truthy JUndefined = False"
| "truthy JNull = False"
| "truthy (JBool b) = b"
| "truthy (JNum n) = (n \<noteq> 0)"
| "truthy (JStr s) = (s \<noteq> [])"
| "truthy (JArr xs) = True"
| "truthy (JObj kvs) = True"
| "truthy (JImm v) = True"

text \<open>
  A property read \<open>value.k\<close>. A missing property reads as \<open>undefined\<close>; so does any
  of the property names read in this code on a string, number, boolean or array. The
  reads on \<open>undefined\<close> and \<open>null\<close>, a TypeError in the language, are all behind an
  \<open>isDefined\<close> guard in the source.
\<close>

fun jsProp :: "jsval \<Rightarrow> string \<Rightarrow> jsval" where
  "jsProp (JObj kvs) k = (case map_of kvs k of Some v \<Rightarrow> v | None \<Rightarrow> JUndefined)"
| "jsProp v k = JUndefined"

text \<open>Does the object have the property at all (\<open>k in obj\<close>).\<close>

fun hasProp :: "jsval \<Rightarrow> string \<Rightarrow> bool" where
  "hasProp (JObj kvs) k = (map_of kvs k \<noteq> None)"
| "hasProp v k = False"

text \<open>The assignment \<open>obj[k] = v\<close> on the property list of an object.\<close>

fun objSet :: "string \<Rightarrow> jsval \<Rightarrow> (string \<times> jsval) list \<Rightarrow> (string \<times> jsval) list" where
  "objSet k v [] = [(k, v)]"
| "objSet k v ((k', v') # kvs) =
     (if k = k' then (k, v) # kvs else (k', v') # objSet k v kvs)"

subsection \<open>lodash and Immutable.js\<close>

definition isUndefined :: "jsval \<Rightarrow> bool" where
  "isUndefined v = (v = JUndefined)"

fun isString :: "jsval \<Rightarrow> bool" where
  "isString (JStr s) = True"
| "isString v = False"

fun isArray :: "jsval \<Rightarrow> bool" where
  "isArray (JArr xs) = True"
| "isArray v = False"

text \<open>\<open>_.isEmpty\<close>: no characters, no elements, no own properties; true of every primitive
  that is not a string, false of an Immutable.js collection, an object with properties
  of its own. The source calls it behind \<open>isString\<close> or \<open>isArray\<close> only.\<close>

fun isEmpty :: "jsval \<Rightarrow> bool" where
  "isEmpty (JStr s) = (s = [])"
| "isEmpty (JArr xs) = (xs = [])"
| "isEmpty (JObj kvs) = (kvs = [])"
| "isEmpty (JImm v) = False"
| "isEmpty v = True"

fun isImmutable :: "jsval \<Rightarrow> bool" where
  "isImmutable (JImm v) = True"
| "isImmutable v = False"

text \<open>\<open>fromJS\<close> converts plain objects and arrays, deeply, and returns anything else as
  it is; \<open>get\<close> on the converted collection therefore returns converted members.\<close>

fun fromJS :: "jsval \<Rightarrow> jsval" where
  "fromJS (JObj kvs) = JImm (JObj kvs)"
| "fromJS (JArr xs) = JImm (JArr xs)"
| "fromJS v = v"

fun immGet :: "jsval \<Rightarrow> string \<Rightarrow> jsval" where
  "immGet (JImm v) k = fromJS (jsProp v k)"
| "immGet v k = JUndefined"

text \<open>
  \<open>Immutable.Set().withMutations(set => xs.forEach(x => set.add(x))).toJS()\<close>:
  \<open>add\<close> leaves the set as it is when it holds a member equal to the new one
  (\<open>Immutable.is\<close>, which on strings is equality of the characters). \<open>toJS\<close> lists
  the members; the order of that list is chosen here as the order of insertion, and no
  theorem below depends on it.
\<close>

definition immSetAdd :: "jsval list \<Rightarrow> jsval \<Rightarrow> jsval list" where
  "immSetAdd s x = (if x \<in> set s then s else s @ [x])"

definition immSetOf :: "jsval list \<Rightarrow> jsval list" where
  "immSetOf xs = foldl immSetAdd [] xs"

subsection \<open>utils/LangUtils and utils/ValidationUtils\<close>

text \<open>Modelled from the spec: \<open>isDefined\<close> of utils/LangUtils is not under src/. A value
  is defined when it is neither \<open>undefined\<close> nor \<open>null\<close>.\<close>

definition isDefined :: "jsval \<Rightarrow> bool" where
  "isDefined v = (v \<noteq> JUndefined \<and> v \<noteq> JNull)"

text \<open>Modelled from the spec: \<open>isNonEmptyString\<close> of utils/LangUtils is not under src/;
  utils/Logger.js has a function of that name, \<open>_.isString(value) && !_.isEmpty(value)\<close>,
  which is taken here, and \<open>isEmptyString\<close> is its counterpart on strings.\<close>

definition isNonEmptyString :: "jsval \<Rightarrow> bool" where
  "isNonEmptyString v = (isString v \<and> \<not> isEmpty v)"

definition isEmptyString :: "jsval \<Rightarrow> bool" where
  "isEmptyString v = (isString v \<and> isEmpty v)"

text \<open>Modelled from the spec: \<open>isEmptyArray\<close> of utils/LangUtils is not under src/.\<close>

definition isEmptyArray :: "jsval \<Rightarrow> bool" where
  "isEmptyArray v = (isArray v \<and> isEmpty v)"

text \<open>Modelled from the spec: \<open>isValidUUID\<close> of utils/ValidationUtils is not under src/.
  The spec types the fields as UUID; a valid UUID is taken to be a string in the
  canonical text form, hexadecimal digits in groups of 8-4-4-4-12 separated by hyphens,
  as the identifiers of the mock role in the source are.\<close>

definition isHexDigit :: "char \<Rightarrow> bool" where
  "isHexDigit c = (c \<in> set ''0123456789abcdefABCDEF'')"

definition uuidClass :: "char \<Rightarrow> nat" where
  "uuidClass c = (if c = CHR ''-'' then 0 else if isHexDigit c then 1 else 2)"

definition uuidPattern :: "nat list" where
  "uuidPattern =
     [1, 1, 1, 1, 1, 1, 1, 1, 0, 1, 1, 1, 1, 0, 1, 1, 1, 1, 0, 1, 1, 1, 1, 0,
      1, 1, 1, 1, 1, 1, 1, 1, 1, 1, 1, 1]"

fun isValidUUID :: "jsval \<Rightarrow> bool" where
  "isValidUUID (JStr s) = (map uuidClass s = uuidPattern)"
| "isValidUUID v = False"

text \<open>Modelled from the spec: \<open>isValidUuidArray\<close> of utils/ValidationUtils is not under
  src/. By the error message of its caller it accepts a non-empty array of valid
  UUIDs.\<close>

fun isValidUuidArray :: "jsval \<Rightarrow> bool" where
  "isValidUuidArray (JArr xs) = (xs \<noteq> [] \<and> list_all isValidUUID xs)"
| "isValidUuidArray v = False"

text \<open>Modelled from the spec: \<open>isValidPermissionArray\<close> of utils/ValidationUtils and the
  Permission enum of constants/types/PermissionTypes are not under src/. By the error
  message of its caller the predicate accepts a non-empty array of valid Permissions;
  a Permission is a string of the enum, whose members are the parameter
  \<open>permissionTypes\<close>.\<close>

fun isValidPermission :: "string list \<Rightarrow> jsval \<Rightarrow> bool" where
  "isValidPermission permissionTypes (JStr s) = (s \<in> set permissionTypes)"
| "isValidPermission permissionTypes v = False"

fun isValidPermissionArray :: "string list \<Rightarrow> jsval \<Rightarrow> bool" where
  "isValidPermissionArray permissionTypes (JArr xs) =
     (xs \<noteq> [] \<and> list_all (isValidPermission permissionTypes) xs)"
| "isValidPermissionArray permissionTypes v = False"

section \<open>Method calls\<close>

text \<open>
  A method call on an object either returns a value or throws; either way it leaves
  the receiver in some state. \<open>Return v s\<close>: the call returned \<open>v\<close> and the
  receiver is now \<open>s\<close>. \<open>Throw e s\<close>: the call threw \<open>e\<close>, the receiver is \<open>s\<close>.
  A setter ends in \<open>return this\<close>, written \<open>This s\<close>.
\<close>

datatype error = Error string

datatype ('a, 's) result = Return 'a 's | Throw error 's

abbreviation This :: "'s \<Rightarrow> (unit, 's) result" where
  "This s \<equiv> Return () s"

text \<open>Statements in sequence: the second runs on the receiver the first one left, and
  not at all when the first one threw.\<close>

fun andThen :: "(unit, 's) result \<Rightarrow> ('s \<Rightarrow> (unit, 's) result) \<Rightarrow> (unit, 's) result" where
  "andThen (Return u s) f = f s"
| "andThen (Throw e s) f = Throw e s"

section \<open>AccessCheck\<close>

record accessCheck =
  ac_aclKey :: jsval
  ac_permissions :: jsval

text \<open>The builder declares its two fields and has no constructor: both start out
  \<open>undefined\<close>.\<close>

record accessCheckBuilder =
  acb_aclKey :: jsval
  acb_permissions :: jsval

definition AccessCheckBuilder_new :: accessCheckBuilder where
  "AccessCheckBuilder_new = \<lparr>acb_aclKey = JUndefined, acb_permissions = JUndefined\<rparr>"

definition AccessCheck_new :: "jsval \<Rightarrow> jsval \<Rightarrow> accessCheck" where
  "AccessCheck_new aclKey permissions = \<lparr>ac_aclKey = aclKey, ac_permissions = permissions\<rparr>"

definition setAclKey :: "jsval \<Rightarrow> accessCheckBuilder \<Rightarrow> (unit, accessCheckBuilder) result" where
  "setAclKey aclKey this =
     (if isUndefined aclKey \<or> isEmptyArray aclKey then This this
      else if \<not> isValidUuidArray aclKey then
        Throw (Error ''invalid parameter: aclKey must be a non-empty array of valid UUIDs'') this
      else This (this\<lparr>acb_aclKey := aclKey\<rparr>))"

text \<open>The elements \<open>forEach\<close> visits; the call is reached with arrays only.\<close>

fun elements :: "jsval \<Rightarrow> jsval list" where
  "elements (JArr xs) = xs"
| "elements v = []"

definition setPermissions ::
  "string list \<Rightarrow> jsval \<Rightarrow> accessCheckBuilder \<Rightarrow> (unit, accessCheckBuilder) result" where
  "setPermissions permissionTypes permissions this =
     (if isUndefined permissions \<or> isEmptyArray permissions then This this
      else if \<not> isValidPermissionArray permissionTypes permissions then
        Throw (Error ''invalid parameter: permissions must be a non-empty array of valid Permissions'') this
      else This (this\<lparr>acb_permissions := JArr (immSetOf (elements permissions))\<rparr>))"

text \<open>\<open>build\<close> assigns the defaults to the builder itself before it constructs.\<close>

definition AccessCheckBuilder_build ::
  "accessCheckBuilder \<Rightarrow> (accessCheck, accessCheckBuilder) result" where
  "AccessCheckBuilder_build this =
     (let this1 = (if \<not> truthy (acb_aclKey this) then this\<lparr>acb_aclKey := JArr []\<rparr> else this);
          this2 = (if \<not> truthy (acb_permissions this1)
                   then this1\<lparr>acb_permissions := JArr []\<rparr> else this1)
      in Return (AccessCheck_new (acb_aclKey this2) (acb_permissions this2)) this2)"

section \<open>Role\<close>

text \<open>
  The class Principal and its builder (./Principal) are not under src/. They enter as
  two parameters: \<open>principalBuild v\<close> is the outcome of
  \<open>(new PrincipalBuilder(v)).build()\<close>, a Principal or the error thrown, and
  \<open>principalToObject p\<close> is \<open>p.toObject()\<close>. A Principal is an object, so it is
  truthy; the builder's field is \<open>None\<close> while it is \<open>undefined\<close>.
\<close>

definition ROLE_CLASS_PACKAGE :: string where
  "ROLE_CLASS_PACKAGE = ''com.openlattice.organization.roles.Role''"

text \<open>Modelled from the spec: the constant \<open>AT_CLASS\<close> of constants/GlobalConstants is
  not under src/. The Flow type RoleObject of the source lists the property it names
  beside the six named properties, as one of its own; it is taken to be the class tag
  \<open>@class\<close>.\<close>

definition AT_CLASS :: string where
  "AT_CLASS = ''@class''"

text \<open>
  The fields of a Role instance. The class declares \<open>aclKey\<close>, \<open>description\<close> and
  \<open>id\<close> as fields, so every instance has them from its creation on, holding
  \<open>undefined\<close>; the constructor assigns to them only under \<open>isDefined\<close>.
  \<open>Some v\<close> is a field the instance has, holding \<open>v\<close>; \<open>None\<close> would be a
  field it does not have. The field names carry the prefix \<open>r_\<close> (\<open>b_\<close> in the
  builder), the two classes having fields of the same names.
\<close>

record 'p role =
  r_organizationId :: jsval
  r_principal :: 'p
  r_title :: jsval
  r_class :: string
  r_description :: "jsval option"
  r_aclKey :: "jsval option"
  r_id :: "jsval option"

text \<open>Reading a field that may be missing.\<close>

fun field :: "jsval option \<Rightarrow> jsval" where
  "field None = JUndefined"
| "field (Some v) = v"

definition Role_new :: "jsval \<Rightarrow> jsval \<Rightarrow> jsval \<Rightarrow> 'p \<Rightarrow> jsval \<Rightarrow> 'p role" where
  "Role_new description idv organizationId principalv title =
     \<lparr>r_organizationId = organizationId,
      r_principal = principalv,
      r_title = title,
      r_class = ROLE_CLASS_PACKAGE,
      r_description = Some (if isDefined description then description else JUndefined),
      r_aclKey = Some (if isDefined idv then JArr [organizationId, idv] else JUndefined),
      r_id = Some (if isDefined idv then idv else JUndefined)\<rparr>"

definition Role_toObject :: "('p \<Rightarrow> jsval) \<Rightarrow> 'p role \<Rightarrow> (jsval, 'p role) result" where
  "Role_toObject principalToObject this =
     (let roleObj0 = [(''organizationId'', r_organizationId this),
                      (''principal'', principalToObject (r_principal this)),
                      (''title'', r_title this)];
          roleObj1 = objSet AT_CLASS (JStr ROLE_CLASS_PACKAGE) roleObj0;
          roleObj2 = (if isDefined (field (r_description this))
                      then objSet ''description'' (field (r_description this)) roleObj1
                      else roleObj1);
          roleObj3 = (if isDefined (field (r_id this))
                      then objSet ''id'' (field (r_id this))
                             (objSet ''aclKey''
                                (JArr [r_organizationId this, field (r_id this)]) roleObj2)
                      else roleObj2)
      in Return (JObj roleObj3) this)"

definition Role_toImmutable :: "('p \<Rightarrow> jsval) \<Rightarrow> 'p role \<Rightarrow> (jsval, 'p role) result" where
  "Role_toImmutable principalToObject this =
     (case Role_toObject principalToObject this of
        Return obj this1 \<Rightarrow> Return (fromJS obj) this1
      | Throw e this1 \<Rightarrow> Throw e this1)"

text \<open>\<open>hashCode\<close> is the hash of Immutable.js, a parameter.\<close>

definition Role_valueOf ::
  "('p \<Rightarrow> jsval) \<Rightarrow> (jsval \<Rightarrow> int) \<Rightarrow> 'p role \<Rightarrow> (int, 'p role) result" where
  "Role_valueOf principalToObject hashCode this =
     (case Role_toImmutable principalToObject this of
        Return imm this1 \<Rightarrow> Return (hashCode imm) this1
      | Throw e this1 \<Rightarrow> Throw e this1)"

subsection \<open>RoleBuilder\<close>

record 'p roleBuilder =
  b_description :: jsval
  b_id :: jsval
  b_organizationId :: jsval
  b_principal :: "'p option"
  b_title :: jsval

definition setDescription :: "jsval \<Rightarrow> 'p roleBuilder \<Rightarrow> (unit, 'p roleBuilder) result" where
  "setDescription description this =
     (if \<not> isDefined description \<or> isEmptyString description then This this
      else if \<not> isNonEmptyString description then
        Throw (Error ''invalid parameter: \"description\" must be a non-empty string'') this
      else This (this\<lparr>b_description := description\<rparr>))"

definition setId :: "jsval \<Rightarrow> 'p roleBuilder \<Rightarrow> (unit, 'p roleBuilder) result" where
  "setId idv this =
     (if \<not> isDefined idv \<or> isEmptyString idv then This this
      else if \<not> isValidUUID idv then
        Throw (Error ''invalid parameter: \"id\" must be a valid UUID'') this
      else This (this\<lparr>b_id := idv\<rparr>))"

definition setOrganizationId :: "jsval \<Rightarrow> 'p roleBuilder \<Rightarrow> (unit, 'p roleBuilder) result" where
  "setOrganizationId organizationId this =
     (if \<not> isValidUUID organizationId then
        Throw (Error ''invalid parameter: \"organizationId\" must be a valid UUID'') this
      else This (this\<lparr>b_organizationId := organizationId\<rparr>))"

definition setPrincipal ::
  "(jsval \<Rightarrow> error + 'p) \<Rightarrow> jsval \<Rightarrow> 'p roleBuilder \<Rightarrow> (unit, 'p roleBuilder) result" where
  "setPrincipal principalBuild principalv this =
     (case principalBuild principalv of
        Inl e \<Rightarrow> Throw e this
      | Inr p \<Rightarrow> This (this\<lparr>b_principal := Some p\<rparr>))"

definition setTitle :: "jsval \<Rightarrow> 'p roleBuilder \<Rightarrow> (unit, 'p roleBuilder) result" where
  "setTitle title this =
     (if \<not> isNonEmptyString title then
        Throw (Error ''invalid parameter: \"title\" must be a non-empty string'') this
      else This (this\<lparr>b_title := title\<rparr>))"

text \<open>The fields of a builder before its constructor runs.\<close>

definition RoleBuilder_fields :: "'p roleBuilder" where
  "RoleBuilder_fields =
     \<lparr>b_description = JUndefined, b_id = JUndefined, b_organizationId = JUndefined,
      b_principal = None, b_title = JUndefined\<rparr>"

text \<open>\<open>new RoleBuilder(value)\<close>; \<open>new RoleBuilder()\<close> is the call with \<open>undefined\<close>.\<close>

definition RoleBuilder_new ::
  "(jsval \<Rightarrow> error + 'p) \<Rightarrow> jsval \<Rightarrow> (unit, 'p roleBuilder) result" where
  "RoleBuilder_new principalBuild value =
     (if isImmutable value then
        andThen (andThen (andThen (andThen
          (setDescription (immGet value ''description'') RoleBuilder_fields)
          (setId (immGet value ''id'')))
          (setOrganizationId (immGet value ''organizationId'')))
          (setPrincipal principalBuild (immGet value ''principal'')))
          (setTitle (immGet value ''title''))
      else if isDefined value then
        andThen (andThen (andThen (andThen
          (setDescription (jsProp value ''description'') RoleBuilder_fields)
          (setId (jsProp value ''id'')))
          (setOrganizationId (jsProp value ''organizationId'')))
          (setPrincipal principalBuild (jsProp value ''principal'')))
          (setTitle (jsProp value ''title''))
      else This RoleBuilder_fields)"

definition RoleBuilder_build :: "'p roleBuilder \<Rightarrow> ('p role, 'p roleBuilder) result" where
  "RoleBuilder_build this =
     (if \<not> truthy (b_organizationId this) then
        Throw (Error ''missing property: \"organizationId\" is a required property'') this
      else case b_principal this of
        None \<Rightarrow> Throw (Error ''missing property: \"principal\" is a required property'') this
      | Some principalv \<Rightarrow>
          if \<not> truthy (b_title this) then
            Throw (Error ''missing property: \"title\" is a required property'') this
          else Return (Role_new (b_description this) (b_id this) (b_organizationId this)
                         principalv (b_title this)) this)"

text \<open>
  A client drives a builder through a chain of setter calls; the chain ends where a
  setter throws.
\<close>

datatype roleCall =
    SetDescription jsval
  | SetId jsval
  | SetOrganizationId jsval
  | SetPrincipal jsval
  | SetTitle jsval

fun callSetter ::
  "(jsval \<Rightarrow> error + 'p) \<Rightarrow> roleCall \<Rightarrow> 'p roleBuilder \<Rightarrow> (unit, 'p roleBuilder) result" where
  "callSetter principalBuild (SetDescription v) = setDescription v"
| "callSetter principalBuild (SetId v) = setId v"
| "callSetter principalBuild (SetOrganizationId v) = setOrganizationId v"
| "callSetter principalBuild (SetPrincipal v) = setPrincipal principalBuild v"
| "callSetter principalBuild (SetTitle v) = setTitle v"

fun callSetters ::
  "(jsval \<Rightarrow> error + 'p) \<Rightarrow> roleCall list \<Rightarrow> 'p roleBuilder \<Rightarrow> (unit, 'p roleBuilder) result" where
  "callSetters principalBuild [] this = This this"
| "callSetters principalBuild (c # cs) this =
     andThen (callSetter principalBuild c this) (callSetters principalBuild cs)"

section \<open>The API wrappers\<close>

text \<open>
  A wrapper either returns \<open>Promise.reject(message)\<close> before it touches the HTTP client,
  or it hands a request to the axios instance of its API. What the returned promise
  settles to after that is the transport's affair and is not modelled, and neither are
  the calls to the logger. A request keeps the values interpolated into the URL
  template \<open>`/${a}/${b}`\<close> as the list \<open>[a, b]\<close>, the payload (\<open>undefined\<close> when the
  call passes none) and the query parameters.
\<close>

datatype apiName = LINKING_API | DATA_API | EDM_API | DATA_INTEGRATION_API

datatype httpMethod = GET | POST | PUT | DELETE | PATCH

record httpRequest =
  req_api :: apiName
  req_method :: httpMethod
  req_url :: "jsval list"
  req_data :: jsval
  req_params :: "(string \<times> jsval) list"

datatype apiCall = Reject string | Delegate httpRequest



definition ENTITY_DATA_PATH :: string where
  "ENTITY_DATA_PATH = ''entitydata''"











text \<open>Modelled from the spec: \<open>FullyQualifiedName.isValidFqnObjectLiteral\<close>
  (types/FullyQualifiedName) is not under src/. The spec: FullyQualifiedName is
  \<open>{namespace: string, name: string}\<close>, valid iff both are non-empty strings.\<close>

fun isValidFqnObjectLiteral :: "jsval \<Rightarrow> bool" where
  "isValidFqnObjectLiteral (JObj kvs) =
     (isNonEmptyString (jsProp (JObj kvs) ''namespace'') \<and>
      isNonEmptyString (jsProp (JObj kvs) ''name''))"
| "isValidFqnObjectLiteral v = False"





text \<open>\<open>xs.reduce((isValid, x) => isValid && pred(x), true)\<close>, the loop by which the
  wrappers validate an array; it is reached with arrays only.\<close>

definition allValid :: "(jsval \<Rightarrow> bool) \<Rightarrow> jsval \<Rightarrow> bool" where
  "allValid pred xs = foldl (\<lambda>isValid x. isValid \<and> pred x) True (elements xs)"

subsection \<open>LinkingApi\<close>








subsection \<open>DataApi (src/DataApi.js)\<close>




definition getAllEntitiesOfTypeInSet :: "jsval \<Rightarrow> jsval \<Rightarrow> apiCall" where
  "getAllEntitiesOfTypeInSet entityTypeFqn entitySetName =
     (if \<not> isValidFqnObjectLiteral entityTypeFqn then
        Reject ''invalid parameter: entityTypeFqn must be a valid object literal''
      else if isNonEmptyString entitySetName then
        Reject ''invalid parameter: entitySetName must be a non-empty string''
      else
        Delegate \<lparr>req_api = DATA_API, req_method = GET,
                  req_url = [JStr ENTITY_DATA_PATH, jsProp entityTypeFqn ''namespace'',
                             jsProp entityTypeFqn ''name'', entitySetName],
                  req_data = JUndefined, req_params = []\<rparr>)"

definition downloadAllEntitiesOfTypeInSet :: "jsval \<Rightarrow> jsval \<Rightarrow> jsval \<Rightarrow> apiCall" where
  "downloadAllEntitiesOfTypeInSet entityTypeFqn entitySetName fileType =
     (if \<not> isValidFqnObjectLiteral entityTypeFqn then
        Reject ''invalid parameter: entityTypeFqn must be a valid object literal''
      else if isNonEmptyString entitySetName then
        Reject ''invalid parameter: entitySetName must be a non-empty string''
      else
        Delegate \<lparr>req_api = DATA_API, req_method = GET,
                  req_url = [JStr ENTITY_DATA_PATH, jsProp entityTypeFqn ''namespace'',
                             jsProp entityTypeFqn ''name'', entitySetName],
                  req_data = JUndefined, req_params = [(''fileType'', fileType)]\<rparr>)"


subsection \<open>DataApi (src/api/DataApi.js)\<close>









subsection \<open>DataIntegrationApi\<close>


subsection \<open>EntityDataModelApi\<close>






















text \<open>A call that was turned down with an \<open>invalid parameter\<close> message: no request
  was made. Two of the messages begin \<open>invalid parameters:\<close>.\<close>

fun invalidParameter :: "apiCall \<Rightarrow> bool" where
  "invalidParameter (Reject msg) = (take 17 msg = ''invalid parameter'')"
| "invalidParameter (Delegate r) = False"

section \<open>Builders a client can reach\<close>

text \<open>
  What the setters maintain on a RoleBuilder: each of the four validated fields is
  either still \<open>undefined\<close> or holds a value its setter accepted.
\<close>

definition validFields :: "'p roleBuilder \<Rightarrow> bool" where
  "validFields this =
     ((b_description this = JUndefined \<or> isNonEmptyString (b_description this)) \<and>
      (b_id this = JUndefined \<or> isValidUUID (b_id this)) \<and>
      (b_organizationId this = JUndefined \<or> isValidUUID (b_organizationId this)) \<and>
      (b_title this = JUndefined \<or> isNonEmptyString (b_title this)))"

text \<open>
  The mock role of the source, \<open>ROLE_MOCK\<close>, is built by a chain of five setter calls
  on \<open>new RoleBuilder()\<close>. Its Principal is built from the id
  \<open>MockOrgRolePrincipalId\<close> and the type ROLE; it stands here as the object literal of
  the two, with \<open>Inr\<close> for the PrincipalBuilder (any value is taken as it is) and the
  identity for \<open>toObject\<close>. \<open>ROLE_MOCK_builder\<close> is the builder after the chain and
  \<open>ROLE_MOCK\<close> the role it builds, as the lemmas \<open>ROLE_MOCK_chain\<close> and
  \<open>ROLE_MOCK_build\<close> compute.
\<close>

definition ROLE_MOCK_principal :: jsval where
  "ROLE_MOCK_principal =
     JObj [(''id'', JStr ''MockOrgRolePrincipalId''), (''type'', JStr ''ROLE'')]"

definition ROLE_MOCK_calls :: "roleCall list" where
  "ROLE_MOCK_calls =
     [SetDescription (JStr ''MockOrgRoleDescription''),
      SetId (JStr ''66da9306-3d1d-49d7-a8ee-8515c9c28434''),
      SetOrganizationId (JStr ''a77a0f9a-0e6f-4a98-a169-4d1e122b39a3''),
      SetPrincipal ROLE_MOCK_principal,
      SetTitle (JStr ''MockOrgRoleTitle'')]"

definition ROLE_MOCK_builder :: "jsval roleBuilder" where
  "ROLE_MOCK_builder =
     \<lparr>b_description = JStr ''MockOrgRoleDescription'',
      b_id = JStr ''66da9306-3d1d-49d7-a8ee-8515c9c28434'',
      b_organizationId = JStr ''a77a0f9a-0e6f-4a98-a169-4d1e122b39a3'',
      b_principal = Some ROLE_MOCK_principal,
      b_title = JStr ''MockOrgRoleTitle''\<rparr>"

definition ROLE_MOCK :: "jsval role" where
  "ROLE_MOCK =
     \<lparr>r_organizationId = JStr ''a77a0f9a-0e6f-4a98-a169-4d1e122b39a3'',
      r_principal = ROLE_MOCK_principal,
      r_title = JStr ''MockOrgRoleTitle'',
      r_class = ROLE_CLASS_PACKAGE,
      r_description = Some (JStr ''MockOrgRoleDescription''),
      r_aclKey = Some (JArr [JStr ''a77a0f9a-0e6f-4a98-a169-4d1e122b39a3'',
                             JStr ''66da9306-3d1d-49d7-a8ee-8515c9c28434'']),
      r_id = Some (JStr ''66da9306-3d1d-49d7-a8ee-8515c9c28434'')\<rparr>"

section \<open>Properties of the AccessCheck builder\<close>

lemma set_immSetAdd: "set (immSetAdd s x) = insert x (set s)"
  by (auto simp: immSetAdd_def)

lemma distinct_immSetAdd: "distinct s \<Longrightarrow> distinct (immSetAdd s x)"
  by (simp add: immSetAdd_def)

lemma set_foldl_immSetAdd: "set (foldl immSetAdd s xs) = set s \<union> set xs"
  by (induction xs arbitrary: s) (auto simp: set_immSetAdd)

lemma distinct_foldl_immSetAdd: "distinct s \<Longrightarrow> distinct (foldl immSetAdd s xs)"
  by (induction xs arbitrary: s) (auto simp: distinct_immSetAdd)

lemma set_immSetOf: "set (immSetOf xs) = set xs"
  by (simp add: immSetOf_def set_foldl_immSetAdd)

lemma distinct_immSetOf: "distinct (immSetOf xs)"
  by (simp add: immSetOf_def distinct_foldl_immSetAdd)

text \<open>
  C3. For a non-empty array \<open>p\<close> of valid Permissions, \<open>setPermissions(p)\<close> returns the
  builder, and \<open>build()\<close> on it returns an AccessCheck whose \<open>permissions\<close> is an array
  \<open>qs\<close> without repetitions that has exactly the elements of \<open>p\<close>: each distinct
  element of \<open>p\<close> once. The set of its elements is the set of elements of \<open>p\<close>,
  whatever their order in \<open>p\<close>.
\<close>

theorem setPermissions_build_deduplicates:
  assumes "isValidPermissionArray permissionTypes (JArr p)"
  shows "\<exists>this1 this2 ac qs.
           setPermissions permissionTypes (JArr p) this = This this1 \<and>
           AccessCheckBuilder_build this1 = Return ac this2 \<and>
           ac_permissions ac = JArr qs \<and> distinct qs \<and> set qs = set p"
proof -
  from assms have ne: "p \<noteq> []" by simp
  let ?this1 = "this\<lparr>acb_permissions := JArr (immSetOf p)\<rparr>"
  have s: "setPermissions permissionTypes (JArr p) this = This ?this1"
    using assms ne by (simp add: setPermissions_def isUndefined_def isEmptyArray_def)
  obtain ac this2 where b: "AccessCheckBuilder_build ?this1 = Return ac this2"
    and q: "ac_permissions ac = JArr (immSetOf p)"
    by (simp add: AccessCheckBuilder_build_def AccessCheck_new_def Let_def)
  show ?thesis
    using s b q distinct_immSetOf set_immSetOf by blast
qed

theorem setPermissions_build_deduplicates_witness:
  "\<exists>this1 this2 ac qs.
     setPermissions [''READ'', ''WRITE''] (JArr [JStr ''READ'', JStr ''WRITE'', JStr ''READ''])
       AccessCheckBuilder_new = This this1 \<and>
     AccessCheckBuilder_build this1 = Return ac this2 \<and>
     ac_permissions ac = JArr qs \<and> distinct qs \<and> set qs = {JStr ''READ'', JStr ''WRITE''}"
proof -
  have h: "isValidPermissionArray [''READ'', ''WRITE'']
             (JArr [JStr ''READ'', JStr ''WRITE'', JStr ''READ''])"
    by simp
  show ?thesis
    using setPermissions_build_deduplicates [OF h, of AccessCheckBuilder_new] by auto
qed

text \<open>
  C4, as stated, fails: \<open>build()\<close> on a builder on which neither \<open>aclKey\<close> nor
  \<open>permissions\<close> has been set throws nothing. It returns an AccessCheck with two empty
  arrays, and has assigned them to the builder.
\<close>

theorem build_unset_fields_counterexample:
  "AccessCheckBuilder_build AccessCheckBuilder_new =
     Return \<lparr>ac_aclKey = JArr [], ac_permissions = JArr []\<rparr>
            \<lparr>acb_aclKey = JArr [], acb_permissions = JArr []\<rparr>"
  by (simp add: AccessCheckBuilder_build_def AccessCheckBuilder_new_def AccessCheck_new_def)

text \<open>
  C4, amended. \<open>AccessCheckBuilder.build()\<close> never throws. A field of the builder that
  is not set (falsy: \<open>undefined\<close>) is first given the empty array as its default; a
  field that is set is kept; the AccessCheck returned carries the two fields of the
  builder as they are after that.
\<close>

theorem AccessCheckBuilder_build_defaults:
  "\<exists>ac this'.
     AccessCheckBuilder_build this = Return ac this' \<and>
     ac_aclKey ac = acb_aclKey this' \<and> ac_permissions ac = acb_permissions this' \<and>
     acb_aclKey this' = (if truthy (acb_aclKey this) then acb_aclKey this else JArr []) \<and>
     acb_permissions this' =
       (if truthy (acb_permissions this) then acb_permissions this else JArr [])"
  by (simp add: AccessCheckBuilder_build_def AccessCheck_new_def Let_def)

theorem AccessCheckBuilder_build_defaults_witness:
  "\<exists>ac this'.
     AccessCheckBuilder_build
       \<lparr>acb_aclKey = JArr [JStr ''a77a0f9a-0e6f-4a98-a169-4d1e122b39a3''],
        acb_permissions = JUndefined\<rparr> = Return ac this' \<and>
     ac_aclKey ac = JArr [JStr ''a77a0f9a-0e6f-4a98-a169-4d1e122b39a3''] \<and>
     ac_permissions ac = JArr []"
  using AccessCheckBuilder_build_defaults
    [of "\<lparr>acb_aclKey = JArr [JStr ''a77a0f9a-0e6f-4a98-a169-4d1e122b39a3''],
          acb_permissions = JUndefined\<rparr>"]
  by auto

section \<open>Properties of the Role builder\<close>

subsection \<open>What the setters accept\<close>

lemma isValidUUID_JStr: "isValidUUID v \<Longrightarrow> \<exists>s. v = JStr s \<and> s \<noteq> []"
  by (cases v) (auto simp: uuidPattern_def)

lemma isNonEmptyString_JStr: "isNonEmptyString v \<Longrightarrow> \<exists>s. v = JStr s \<and> s \<noteq> []"
  by (cases v) (auto simp: isNonEmptyString_def)

lemma isValidUUID_truthy: "isValidUUID v \<Longrightarrow> truthy v"
  by (auto dest: isValidUUID_JStr)

lemma isNonEmptyString_truthy: "isNonEmptyString v \<Longrightarrow> truthy v"
  by (auto dest: isNonEmptyString_JStr)

lemma isValidUUID_defined: "isValidUUID v \<Longrightarrow> isDefined v \<and> \<not> isEmptyString v"
  by (auto dest: isValidUUID_JStr simp: isDefined_def isEmptyString_def)

lemma isNonEmptyString_defined: "isNonEmptyString v \<Longrightarrow> isDefined v \<and> \<not> isEmptyString v"
  by (auto dest: isNonEmptyString_JStr simp: isDefined_def isEmptyString_def)

text \<open>A setter call that returns has assigned its argument to its own field and to no
  other, or (the two optional setters) has assigned nothing.\<close>

lemma setter_assigns:
  "setTitle v this = This this' \<Longrightarrow> this' = this\<lparr>b_title := v\<rparr>"
  "setOrganizationId v this = This this' \<Longrightarrow> this' = this\<lparr>b_organizationId := v\<rparr>"
  "setPrincipal pb v this = This this' \<Longrightarrow>
     \<exists>p. pb v = Inr p \<and> this' = this\<lparr>b_principal := Some p\<rparr>"
  "setId v this = This this' \<Longrightarrow> this' = this \<or> this' = this\<lparr>b_id := v\<rparr>"
  "setDescription v this = This this' \<Longrightarrow>
     this' = this \<or> this' = this\<lparr>b_description := v\<rparr>"
  by (auto simp: setTitle_def setOrganizationId_def setPrincipal_def setId_def
      setDescription_def split: if_splits sum.splits)

lemma validFields_fields: "validFields RoleBuilder_fields"
  by (simp add: validFields_def RoleBuilder_fields_def)

lemma validFields_setDescription:
  "validFields this \<Longrightarrow> setDescription v this = This this' \<Longrightarrow> validFields this'"
  by (auto simp: setDescription_def validFields_def split: if_splits)

lemma validFields_setId:
  "validFields this \<Longrightarrow> setId v this = This this' \<Longrightarrow> validFields this'"
  by (auto simp: setId_def validFields_def split: if_splits)

lemma validFields_setOrganizationId:
  "validFields this \<Longrightarrow> setOrganizationId v this = This this' \<Longrightarrow> validFields this'"
  by (auto simp: setOrganizationId_def validFields_def split: if_splits)

lemma validFields_setPrincipal:
  "validFields this \<Longrightarrow> setPrincipal pb v this = This this' \<Longrightarrow> validFields this'"
  by (auto simp: setPrincipal_def validFields_def split: sum.splits)

lemma validFields_setTitle:
  "validFields this \<Longrightarrow> setTitle v this = This this' \<Longrightarrow> validFields this'"
  by (auto simp: setTitle_def validFields_def split: if_splits)

lemma validFields_callSetter:
  "validFields this \<Longrightarrow> callSetter pb c this = This this' \<Longrightarrow> validFields this'"
  by (cases c)
     (auto dest: validFields_setDescription validFields_setId validFields_setOrganizationId
        validFields_setPrincipal validFields_setTitle)

lemma andThen_This:
  "andThen r f = This s' \<Longrightarrow> \<exists>s. r = This s \<and> f s = This s'"
  by (cases r) auto

lemma validFields_callSetters:
  "validFields this \<Longrightarrow> callSetters pb cs this = This this' \<Longrightarrow> validFields this'"
proof (induction cs arbitrary: this)
  case Nil
  then show ?case by simp
next
  case (Cons c cs)
  from Cons.prems(2) obtain s where
    s: "callSetter pb c this = This s" and rest: "callSetters pb cs s = This this'"
    by (auto dest: andThen_This)
  from Cons.prems(1) s have "validFields s" by (rule validFields_callSetter)
  then show ?case using rest by (rule Cons.IH)
qed

lemma andThen_assoc: "andThen (andThen r f) g = andThen r (\<lambda>s. andThen (f s) g)"
  by (cases r) auto

lemma callSetters_Cons_fun:
  "callSetters pb (c # cs) = (\<lambda>s. andThen (callSetter pb c s) (callSetters pb cs))"
  by (rule ext) simp

lemma callSetters_Nil_fun: "callSetters pb [] = This"
  by (rule ext) simp

lemma andThen_Return: "andThen r This = r"
  by (cases r) auto

lemma RoleBuilder_new_calls:
  "RoleBuilder_new pb value =
     (if isImmutable value then
        callSetters pb [SetDescription (immGet value ''description''), SetId (immGet value ''id''),
          SetOrganizationId (immGet value ''organizationId''),
          SetPrincipal (immGet value ''principal''), SetTitle (immGet value ''title'')]
          RoleBuilder_fields
      else if isDefined value then
        callSetters pb [SetDescription (jsProp value ''description''), SetId (jsProp value ''id''),
          SetOrganizationId (jsProp value ''organizationId''),
          SetPrincipal (jsProp value ''principal''), SetTitle (jsProp value ''title'')]
          RoleBuilder_fields
      else This RoleBuilder_fields)"
  by (simp add: RoleBuilder_new_def andThen_assoc callSetters_Cons_fun callSetters_Nil_fun
      andThen_Return)

lemma validFields_new:
  assumes "RoleBuilder_new pb value = This this"
  shows "validFields this"
proof -
  have "\<exists>cs. callSetters pb cs RoleBuilder_fields = This this"
  proof (cases "isImmutable value")
    case True
    with assms show ?thesis
      by (simp only: RoleBuilder_new_calls if_True) blast
  next
    case False
    show ?thesis
    proof (cases "isDefined value")
      case True
      with assms False show ?thesis
        by (simp only: RoleBuilder_new_calls if_True if_False) blast
    next
      case d: False
      with assms False have "callSetters pb [] RoleBuilder_fields = This this"
        by (simp add: RoleBuilder_new_def)
      then show ?thesis by blast
    qed
  qed
  then show ?thesis
    by (auto intro: validFields_callSetters [OF validFields_fields])
qed

lemma reachable_validFields:
  "RoleBuilder_new pb value = This this0 \<Longrightarrow> callSetters pb cs this0 = This this
     \<Longrightarrow> validFields this"
  by (blast intro: validFields_new validFields_callSetters)


subsection \<open>The mock role, computed\<close>

lemma RoleBuilder_new_undefined: "RoleBuilder_new pb JUndefined = This RoleBuilder_fields"
  by (simp add: RoleBuilder_new_def isDefined_def)

lemma ROLE_MOCK_chain:
  "callSetters Inr ROLE_MOCK_calls RoleBuilder_fields = This ROLE_MOCK_builder"
  by (simp add: ROLE_MOCK_calls_def ROLE_MOCK_builder_def setDescription_def setId_def
      setOrganizationId_def setPrincipal_def setTitle_def RoleBuilder_fields_def isDefined_def
      isEmptyString_def isNonEmptyString_def uuidClass_def uuidPattern_def isHexDigit_def)

lemma ROLE_MOCK_build:
  "RoleBuilder_build ROLE_MOCK_builder = Return ROLE_MOCK ROLE_MOCK_builder"
  by (simp add: RoleBuilder_build_def ROLE_MOCK_builder_def ROLE_MOCK_def Role_new_def
      isDefined_def)

lemma ROLE_MOCK_toObject:
  "Role_toObject (\<lambda>p. p) ROLE_MOCK =
     Return (JObj [(''organizationId'', JStr ''a77a0f9a-0e6f-4a98-a169-4d1e122b39a3''),
                   (''principal'', ROLE_MOCK_principal),
                   (''title'', JStr ''MockOrgRoleTitle''),
                   (''@class'', JStr ''com.openlattice.organization.roles.Role''),
                   (''description'', JStr ''MockOrgRoleDescription''),
                   (''aclKey'', JArr [JStr ''a77a0f9a-0e6f-4a98-a169-4d1e122b39a3'',
                                      JStr ''66da9306-3d1d-49d7-a8ee-8515c9c28434'']),
                   (''id'', JStr ''66da9306-3d1d-49d7-a8ee-8515c9c28434'')])
       ROLE_MOCK"
  by (simp add: Role_toObject_def ROLE_MOCK_def AT_CLASS_def ROLE_CLASS_PACKAGE_def Let_def
      isDefined_def)

lemma no_id_chain:
  "callSetters Inr
     [SetOrganizationId (JStr ''a77a0f9a-0e6f-4a98-a169-4d1e122b39a3''),
      SetPrincipal ROLE_MOCK_principal, SetTitle (JStr ''MockOrgRoleTitle'')]
     RoleBuilder_fields =
   This \<lparr>b_description = JUndefined, b_id = JUndefined,
         b_organizationId = JStr ''a77a0f9a-0e6f-4a98-a169-4d1e122b39a3'',
         b_principal = Some ROLE_MOCK_principal, b_title = JStr ''MockOrgRoleTitle''\<rparr>"
  by (simp add: setOrganizationId_def setPrincipal_def setTitle_def RoleBuilder_fields_def
      isNonEmptyString_def uuidClass_def uuidPattern_def isHexDigit_def)

lemma no_id_build:
  "RoleBuilder_build
     \<lparr>b_description = JUndefined, b_id = JUndefined,
      b_organizationId = JStr ''a77a0f9a-0e6f-4a98-a169-4d1e122b39a3'',
      b_principal = Some ROLE_MOCK_principal, b_title = JStr ''MockOrgRoleTitle''\<rparr> =
   Return \<lparr>r_organizationId = JStr ''a77a0f9a-0e6f-4a98-a169-4d1e122b39a3'',
           r_principal = ROLE_MOCK_principal, r_title = JStr ''MockOrgRoleTitle'',
           r_class = ROLE_CLASS_PACKAGE, r_description = Some JUndefined,
           r_aclKey = Some JUndefined, r_id = Some JUndefined\<rparr>
     \<lparr>b_description = JUndefined, b_id = JUndefined,
      b_organizationId = JStr ''a77a0f9a-0e6f-4a98-a169-4d1e122b39a3'',
      b_principal = Some ROLE_MOCK_principal, b_title = JStr ''MockOrgRoleTitle''\<rparr>"
  by (simp add: RoleBuilder_build_def Role_new_def isDefined_def)


subsection \<open>Required fields\<close>

text \<open>
  C1. Take any RoleBuilder a client can have: made by \<open>new RoleBuilder(value)\<close> and
  then driven through any chain of setter calls that did not throw. A field of it has
  been set exactly when it is no longer \<open>undefined\<close> (\<open>None\<close> for the principal),
  and then it holds the value its setter accepted. If \<open>organizationId\<close>,
  \<open>principal\<close> and \<open>title\<close> have all been set, \<open>build()\<close> returns a Role that
  carries them, and the description and the id the builder holds. If \<open>organizationId\<close>
  has not been set, \<open>build()\<close> throws the Error that names \<open>organizationId\<close>; if
  it has and \<open>principal\<close> has not, the Error that names \<open>principal\<close>; if these two
  have and \<open>title\<close> has not, the Error that names \<open>title\<close>.
\<close>

theorem RoleBuilder_build_required:
  assumes "RoleBuilder_new principalBuild value = This this0"
      and "callSetters principalBuild calls this0 = This this"
  shows "(b_organizationId this \<noteq> JUndefined \<and> b_principal this = Some p \<and>
            b_title this \<noteq> JUndefined \<longrightarrow>
          (\<exists>r. RoleBuilder_build this = Return r this \<and>
               r_organizationId r = b_organizationId this \<and> r_principal r = p \<and>
               r_title r = b_title this \<and> field (r_description r) = b_description this \<and>
               field (r_id r) = b_id this)) \<and>
         (b_organizationId this = JUndefined \<longrightarrow>
          RoleBuilder_build this =
            Throw (Error ''missing property: \"organizationId\" is a required property'') this) \<and>
         (b_organizationId this \<noteq> JUndefined \<and> b_principal this = None \<longrightarrow>
          RoleBuilder_build this =
            Throw (Error ''missing property: \"principal\" is a required property'') this) \<and>
         (b_organizationId this \<noteq> JUndefined \<and> b_principal this \<noteq> None \<and>
            b_title this = JUndefined \<longrightarrow>
          RoleBuilder_build this =
            Throw (Error ''missing property: \"title\" is a required property'') this)"
proof -
  from assms have v: "validFields this" by (rule reachable_validFields)
  have org: "b_organizationId this \<noteq> JUndefined \<Longrightarrow> truthy (b_organizationId this)"
    using v by (auto simp: validFields_def dest: isValidUUID_truthy)
  have title: "b_title this \<noteq> JUndefined \<Longrightarrow> truthy (b_title this)"
    using v by (auto simp: validFields_def dest: isNonEmptyString_truthy)
  have descr: "b_description this \<noteq> JUndefined \<Longrightarrow> isDefined (b_description this)"
    using v by (auto simp: validFields_def dest: isNonEmptyString_defined)
  have ident: "b_id this \<noteq> JUndefined \<Longrightarrow> isDefined (b_id this)"
    using v by (auto simp: validFields_def dest: isValidUUID_defined)
  have 1: "b_organizationId this \<noteq> JUndefined \<and> b_principal this = Some p \<and>
            b_title this \<noteq> JUndefined \<longrightarrow>
          (\<exists>r. RoleBuilder_build this = Return r this \<and>
               r_organizationId r = b_organizationId this \<and> r_principal r = p \<and>
               r_title r = b_title this \<and> field (r_description r) = b_description this \<and>
               field (r_id r) = b_id this)"
    using org title descr ident
    by (auto simp: RoleBuilder_build_def Role_new_def isDefined_def)
  have 2: "b_organizationId this = JUndefined \<longrightarrow>
          RoleBuilder_build this =
            Throw (Error ''missing property: \"organizationId\" is a required property'') this"
    by (simp add: RoleBuilder_build_def)
  have 3: "b_organizationId this \<noteq> JUndefined \<and> b_principal this = None \<longrightarrow>
          RoleBuilder_build this =
            Throw (Error ''missing property: \"principal\" is a required property'') this"
    using org by (simp add: RoleBuilder_build_def)
  have 4: "b_organizationId this \<noteq> JUndefined \<and> b_principal this \<noteq> None \<and>
            b_title this = JUndefined \<longrightarrow>
          RoleBuilder_build this =
            Throw (Error ''missing property: \"title\" is a required property'') this"
    using org by (auto simp: RoleBuilder_build_def)
  from 1 2 3 4 show ?thesis by blast
qed

theorem RoleBuilder_build_required_witness:
  "(\<exists>r. RoleBuilder_build ROLE_MOCK_builder = Return r ROLE_MOCK_builder \<and>
        r_organizationId r = JStr ''a77a0f9a-0e6f-4a98-a169-4d1e122b39a3'' \<and>
        r_principal r = ROLE_MOCK_principal \<and>
        r_title r = JStr ''MockOrgRoleTitle'' \<and>
        field (r_description r) = JStr ''MockOrgRoleDescription'' \<and>
        field (r_id r) = JStr ''66da9306-3d1d-49d7-a8ee-8515c9c28434'') \<and>
   RoleBuilder_build (RoleBuilder_fields :: jsval roleBuilder) =
     Throw (Error ''missing property: \"organizationId\" is a required property'')
       RoleBuilder_fields"
proof -
  have n: "RoleBuilder_new Inr JUndefined = This (RoleBuilder_fields :: jsval roleBuilder)"
    by (rule RoleBuilder_new_undefined)
  have e: "callSetters Inr [] (RoleBuilder_fields :: jsval roleBuilder) = This RoleBuilder_fields"
    by simp
  show ?thesis
    using RoleBuilder_build_required [OF n ROLE_MOCK_chain, of ROLE_MOCK_principal]
      RoleBuilder_build_required [OF n e]
    by (simp add: ROLE_MOCK_builder_def RoleBuilder_fields_def)
qed

subsection \<open>The derived aclKey\<close>

lemma build_Return:
  assumes "validFields this" and "RoleBuilder_build this = Return r this'"
  shows "\<exists>p. b_principal this = Some p \<and> this' = this \<and>
             r = Role_new (b_description this) (b_id this) (b_organizationId this) p (b_title this) \<and>
             isValidUUID (b_organizationId this) \<and> isNonEmptyString (b_title this)"
proof -
  from assms(2) have o: "truthy (b_organizationId this)"
    by (auto simp: RoleBuilder_build_def split: if_splits)
  with assms(2) obtain p where p: "b_principal this = Some p"
    by (cases "b_principal this") (auto simp: RoleBuilder_build_def)
  with assms(2) o have t: "truthy (b_title this)"
    by (auto simp: RoleBuilder_build_def split: if_splits)
  from o assms(1) have "isValidUUID (b_organizationId this)"
    by (auto simp: validFields_def)
  moreover from t assms(1) have "isNonEmptyString (b_title this)"
    by (auto simp: validFields_def)
  moreover from assms(2) o p t have "this' = this"
    and "r = Role_new (b_description this) (b_id this) (b_organizationId this) p (b_title this)"
    by (auto simp: RoleBuilder_build_def)
  ultimately show ?thesis using p by blast
qed

text \<open>
  C2, as stated, fails in its last part. The chain that sets \<open>organizationId\<close>,
  \<open>principal\<close> and \<open>title\<close> and no id does not throw, \<open>build()\<close> returns a Role,
  and that Role has the fields \<open>aclKey\<close> and \<open>id\<close>, which its class declares: they
  hold \<open>undefined\<close>.
\<close>

theorem Role_without_id_counterexample:
  "callSetters Inr
     [SetOrganizationId (JStr ''a77a0f9a-0e6f-4a98-a169-4d1e122b39a3''),
      SetPrincipal ROLE_MOCK_principal, SetTitle (JStr ''MockOrgRoleTitle'')]
     RoleBuilder_fields =
   This \<lparr>b_description = JUndefined, b_id = JUndefined,
         b_organizationId = JStr ''a77a0f9a-0e6f-4a98-a169-4d1e122b39a3'',
         b_principal = Some ROLE_MOCK_principal, b_title = JStr ''MockOrgRoleTitle''\<rparr> \<and>
   RoleBuilder_build
     \<lparr>b_description = JUndefined, b_id = JUndefined,
      b_organizationId = JStr ''a77a0f9a-0e6f-4a98-a169-4d1e122b39a3'',
      b_principal = Some ROLE_MOCK_principal, b_title = JStr ''MockOrgRoleTitle''\<rparr> =
   Return \<lparr>r_organizationId = JStr ''a77a0f9a-0e6f-4a98-a169-4d1e122b39a3'',
           r_principal = ROLE_MOCK_principal, r_title = JStr ''MockOrgRoleTitle'',
           r_class = ROLE_CLASS_PACKAGE, r_description = Some JUndefined,
           r_aclKey = Some JUndefined, r_id = Some JUndefined\<rparr>
     \<lparr>b_description = JUndefined, b_id = JUndefined,
      b_organizationId = JStr ''a77a0f9a-0e6f-4a98-a169-4d1e122b39a3'',
      b_principal = Some ROLE_MOCK_principal, b_title = JStr ''MockOrgRoleTitle''\<rparr>"
  using no_id_chain no_id_build by simp

text \<open>
  C2, amended. Take a Role that \<open>build()\<close> returned on a builder a client can have.
  If an id was set on the builder, the fields \<open>id\<close> and \<open>aclKey\<close> of the Role
  hold the id and the two-element array of its \<open>organizationId\<close> and the id, and the
  object \<open>toObject()\<close> returns has the properties \<open>id\<close> and \<open>aclKey\<close> with the
  same values. If no id was set, the fields \<open>id\<close> and \<open>aclKey\<close> of the Role hold
  \<open>undefined\<close>, and the object \<open>toObject()\<close> returns has neither property.
\<close>

theorem Role_aclKey_derived:
  assumes "RoleBuilder_new principalBuild value = This this0"
      and "callSetters principalBuild calls this0 = This this"
      and "RoleBuilder_build this = Return r this'"
  shows "(b_id this \<noteq> JUndefined \<longrightarrow>
            r_id r = Some (b_id this) \<and>
            r_aclKey r = Some (JArr [r_organizationId r, b_id this]) \<and>
            (\<exists>obj. Role_toObject principalToObject r = Return obj r \<and>
               hasProp obj ''aclKey'' \<and>
               jsProp obj ''aclKey'' = JArr [r_organizationId r, b_id this] \<and>
               jsProp obj ''id'' = b_id this)) \<and>
         (b_id this = JUndefined \<longrightarrow>
            r_id r = Some JUndefined \<and> r_aclKey r = Some JUndefined \<and>
            (\<exists>obj. Role_toObject principalToObject r = Return obj r \<and>
               \<not> hasProp obj ''aclKey'' \<and> \<not> hasProp obj ''id''))"
proof -
  from assms(1,2) have v: "validFields this" by (rule reachable_validFields)
  from build_Return [OF v assms(3)] obtain p where
    r: "r = Role_new (b_description this) (b_id this) (b_organizationId this) p (b_title this)"
    by blast
  have ident: "b_id this \<noteq> JUndefined \<Longrightarrow> isDefined (b_id this)"
    using v by (auto simp: validFields_def dest: isValidUUID_defined)
  have 1: "b_id this \<noteq> JUndefined \<longrightarrow>
            r_id r = Some (b_id this) \<and>
            r_aclKey r = Some (JArr [r_organizationId r, b_id this]) \<and>
            (\<exists>obj. Role_toObject principalToObject r = Return obj r \<and>
               hasProp obj ''aclKey'' \<and>
               jsProp obj ''aclKey'' = JArr [r_organizationId r, b_id this] \<and>
               jsProp obj ''id'' = b_id this)"
    using ident by (simp add: r Role_new_def Role_toObject_def AT_CLASS_def Let_def)
  have 2: "b_id this = JUndefined \<longrightarrow>
            r_id r = Some JUndefined \<and> r_aclKey r = Some JUndefined \<and>
            (\<exists>obj. Role_toObject principalToObject r = Return obj r \<and>
               \<not> hasProp obj ''aclKey'' \<and> \<not> hasProp obj ''id'')"
    by (simp add: r Role_new_def Role_toObject_def AT_CLASS_def Let_def isDefined_def)
  from 1 2 show ?thesis by blast
qed

theorem Role_aclKey_derived_witness:
  "r_id ROLE_MOCK = Some (JStr ''66da9306-3d1d-49d7-a8ee-8515c9c28434'') \<and>
   r_aclKey ROLE_MOCK =
     Some (JArr [JStr ''a77a0f9a-0e6f-4a98-a169-4d1e122b39a3'',
                 JStr ''66da9306-3d1d-49d7-a8ee-8515c9c28434'']) \<and>
   (\<exists>obj. Role_toObject (\<lambda>p. p) ROLE_MOCK = Return obj ROLE_MOCK \<and>
      hasProp obj ''aclKey'' \<and>
      jsProp obj ''aclKey'' =
        JArr [JStr ''a77a0f9a-0e6f-4a98-a169-4d1e122b39a3'',
              JStr ''66da9306-3d1d-49d7-a8ee-8515c9c28434''] \<and>
      jsProp obj ''id'' = JStr ''66da9306-3d1d-49d7-a8ee-8515c9c28434'') \<and>
   (\<exists>obj. Role_toObject (\<lambda>p. p)
             \<lparr>r_organizationId = JStr ''a77a0f9a-0e6f-4a98-a169-4d1e122b39a3'',
              r_principal = ROLE_MOCK_principal, r_title = JStr ''MockOrgRoleTitle'',
              r_class = ROLE_CLASS_PACKAGE, r_description = Some JUndefined,
              r_aclKey = Some JUndefined, r_id = Some JUndefined\<rparr> =
           Return obj
             \<lparr>r_organizationId = JStr ''a77a0f9a-0e6f-4a98-a169-4d1e122b39a3'',
              r_principal = ROLE_MOCK_principal, r_title = JStr ''MockOrgRoleTitle'',
              r_class = ROLE_CLASS_PACKAGE, r_description = Some JUndefined,
              r_aclKey = Some JUndefined, r_id = Some JUndefined\<rparr> \<and>
      \<not> hasProp obj ''aclKey'' \<and> \<not> hasProp obj ''id'')"
proof -
  have n: "RoleBuilder_new Inr JUndefined = This (RoleBuilder_fields :: jsval roleBuilder)"
    by (rule RoleBuilder_new_undefined)
  show ?thesis
    using Role_aclKey_derived [OF n ROLE_MOCK_chain ROLE_MOCK_build, of "\<lambda>p. p"]
      Role_aclKey_derived [OF n no_id_chain no_id_build, of "\<lambda>p. p"]
    by (simp add: ROLE_MOCK_builder_def ROLE_MOCK_def)
qed

subsection \<open>The methods of a Role\<close>

text \<open>
  C8. On a Role that \<open>build()\<close> returned, each of \<open>toObject()\<close>, \<open>toImmutable()\<close>
  and \<open>valueOf()\<close> returns a value and leaves the Role as it was: every field
  (organizationId, principal, title, description, id, aclKey) is what it was before the
  call. None of the three assigns to \<open>this\<close>; \<open>toObject\<close> puts the fields into a
  fresh object and the two ids into a fresh array.
\<close>

theorem Role_operations_leave_fields:
  assumes "RoleBuilder_build this = Return r this'"
  shows "(\<exists>obj. Role_toObject principalToObject r = Return obj r) \<and>
         (\<exists>imm. Role_toImmutable principalToObject r = Return imm r) \<and>
         (\<exists>h. Role_valueOf principalToObject hashCode r = Return h r)"
  by (simp add: Role_toObject_def Role_toImmutable_def Role_valueOf_def Let_def)

theorem Role_operations_leave_fields_witness:
  "(\<exists>obj. Role_toObject (\<lambda>p. p) ROLE_MOCK = Return obj ROLE_MOCK) \<and>
   (\<exists>imm. Role_toImmutable (\<lambda>p. p) ROLE_MOCK = Return imm ROLE_MOCK) \<and>
   (\<exists>h. Role_valueOf (\<lambda>p. p) (\<lambda>v. 0) ROLE_MOCK = Return h ROLE_MOCK)"
  using Role_operations_leave_fields [OF ROLE_MOCK_build, of "\<lambda>p. p" "\<lambda>v. 0"]
  by simp

subsection \<open>From a Role to its object and back\<close>

lemma not_isDefined_JUndefined: "\<not> isDefined JUndefined"
  by (simp add: isDefined_def)

lemma toObject_props:
  assumes "Role_toObject pto (Role_new d i o' p t) = Return obj r'"
  shows "isDefined obj \<and> \<not> isImmutable obj \<and>
         jsProp obj ''description'' = (if isDefined d then d else JUndefined) \<and>
         jsProp obj ''id'' = (if isDefined i then i else JUndefined) \<and>
         jsProp obj ''organizationId'' = o' \<and>
         jsProp obj ''principal'' = pto p \<and>
         jsProp obj ''title'' = t"
proof -
  have obj: "obj =
    JObj ([(''organizationId'', o'), (''principal'', pto p), (''title'', t),
           (''@class'', JStr ROLE_CLASS_PACKAGE)] @
          (if isDefined d then [(''description'', d)] else []) @
          (if isDefined i then [(''aclKey'', JArr [o', i]), (''id'', i)] else []))"
    using assms
    by (cases "isDefined d"; cases "isDefined i")
       (auto simp: Role_toObject_def Role_new_def AT_CLASS_def Let_def
          not_isDefined_JUndefined)
  have "isDefined obj" "\<not> isImmutable obj"
    by (simp_all add: obj isDefined_def)
  moreover have "jsProp obj ''description'' = (if isDefined d then d else JUndefined)"
    by (simp add: obj)
  moreover have "jsProp obj ''id'' = (if isDefined i then i else JUndefined)"
    by (simp add: obj)
  moreover have "jsProp obj ''organizationId'' = o'" "jsProp obj ''principal'' = pto p"
    "jsProp obj ''title'' = t"
    by (simp_all add: obj)
  ultimately show ?thesis by blast
qed

lemma toObject_principal:
  assumes "pto p' = pto p"
  shows "\<exists>obj. Role_toObject pto (Role_new d i o' p t) = Return obj (Role_new d i o' p t) \<and>
               Role_toObject pto (Role_new d i o' p' t) = Return obj (Role_new d i o' p' t)"
  using assms by (simp add: Role_toObject_def Role_new_def Let_def)

lemma setDescription_ok:
  "d = JUndefined \<or> isNonEmptyString d \<Longrightarrow>
     setDescription d this = This (this\<lparr>b_description := (if d = JUndefined then b_description this else d)\<rparr>)"
  by (auto simp: setDescription_def isDefined_def dest: isNonEmptyString_defined)

lemma setId_ok:
  "i = JUndefined \<or> isValidUUID i \<Longrightarrow>
     setId i this = This (this\<lparr>b_id := (if i = JUndefined then b_id this else i)\<rparr>)"
  by (auto simp: setId_def isDefined_def dest: isValidUUID_defined)

lemma setOrganizationId_ok:
  "isValidUUID v \<Longrightarrow> setOrganizationId v this = This (this\<lparr>b_organizationId := v\<rparr>)"
  by (simp add: setOrganizationId_def)

lemma setPrincipal_ok:
  "pb v = Inr p \<Longrightarrow> setPrincipal pb v this = This (this\<lparr>b_principal := Some p\<rparr>)"
  by (simp add: setPrincipal_def)

lemma setTitle_ok:
  "isNonEmptyString v \<Longrightarrow> setTitle v this = This (this\<lparr>b_title := v\<rparr>)"
  by (simp add: setTitle_def)

lemma new_from_object:
  assumes "isDefined obj" and "\<not> isImmutable obj"
      and "jsProp obj ''description'' = d" and "d = JUndefined \<or> isNonEmptyString d"
      and "jsProp obj ''id'' = i" and "i = JUndefined \<or> isValidUUID i"
      and "jsProp obj ''organizationId'' = o'" and "isValidUUID o'"
      and "jsProp obj ''principal'' = pv" and "pb pv = Inr p"
      and "jsProp obj ''title'' = t" and "isNonEmptyString t"
  shows "RoleBuilder_new pb obj =
           This \<lparr>b_description = d, b_id = i, b_organizationId = o', b_principal = Some p,
                 b_title = t\<rparr>"
  using assms(1,2,4,6)
  by (simp add: RoleBuilder_new_def assms(3,5,7,9,11)
        setDescription_ok [OF assms(4)] setId_ok [OF assms(6)]
        setOrganizationId_ok [OF assms(8)] setPrincipal_ok [of pb pv p, OF assms(10)]
        setTitle_ok [OF assms(12)] RoleBuilder_fields_def)

lemma build_ok:
  assumes "isValidUUID (b_organizationId this)" and "b_principal this = Some p"
      and "isNonEmptyString (b_title this)"
  shows "RoleBuilder_build this =
           Return (Role_new (b_description this) (b_id this) (b_organizationId this) p
                     (b_title this)) this"
  using isValidUUID_truthy [OF assms(1)] isNonEmptyString_truthy [OF assms(3)] assms(2)
  by (simp add: RoleBuilder_build_def)

text \<open>
  C9. Take a Role \<open>r\<close> that \<open>build()\<close> returned on a builder a client can have, and
  \<open>obj = r.toObject()\<close>. Provided the Principal of \<open>r\<close> survives the same trip (the
  PrincipalBuilder, which is not under src/, builds from the object of that Principal a
  Principal with the same object), \<open>new RoleBuilder(obj)\<close> does not throw, \<open>build()\<close>
  on it returns a Role, and \<open>toObject()\<close> of that Role is \<open>obj\<close> again, property
  for property.
\<close>

theorem Role_roundtrip:
  assumes "RoleBuilder_new principalBuild value = This this0"
      and "callSetters principalBuild calls this0 = This this"
      and "RoleBuilder_build this = Return r this'"
      and "Role_toObject principalToObject r = Return obj r'"
      and "principalBuild (principalToObject (r_principal r)) = Inr p'"
      and "principalToObject p' = principalToObject (r_principal r)"
  shows "\<exists>this2 r2 r2'.
           RoleBuilder_new principalBuild obj = This this2 \<and>
           RoleBuilder_build this2 = Return r2 this2 \<and>
           Role_toObject principalToObject r2 = Return obj r2'"
proof -
  let ?d = "b_description this" and ?i = "b_id this" and ?o = "b_organizationId this"
    and ?t = "b_title this"
  from assms(1,2) have v: "validFields this" by (rule reachable_validFields)
  from build_Return [OF v assms(3)] obtain p where
    r: "r = Role_new ?d ?i ?o p ?t"
    and o: "isValidUUID ?o" and t: "isNonEmptyString ?t"
    by blast
  have d: "?d = JUndefined \<or> isNonEmptyString ?d" and i: "?i = JUndefined \<or> isValidUUID ?i"
    using v by (auto simp: validFields_def)
  have dd: "(if isDefined ?d then ?d else JUndefined) = ?d"
    using d by (auto dest: isNonEmptyString_defined)
  have ii: "(if isDefined ?i then ?i else JUndefined) = ?i"
    using i by (auto dest: isValidUUID_defined)
  have pr: "r_principal r = p" by (simp add: r Role_new_def)
  note props = toObject_props [OF assms(4) [unfolded r], unfolded dd ii]
  let ?this2 = "\<lparr>b_description = ?d, b_id = ?i, b_organizationId = ?o, b_principal = Some p',
                  b_title = ?t\<rparr>"
  have n: "RoleBuilder_new principalBuild obj = This ?this2"
    using props d i o t assms(5) [unfolded pr]
    by (intro new_from_object) simp_all
  have b: "RoleBuilder_build ?this2 = Return (Role_new ?d ?i ?o p' ?t) ?this2"
    using build_ok [of ?this2 p'] o t by simp
  from toObject_principal [of principalToObject p' p ?d ?i ?o ?t, OF assms(6) [unfolded pr]]
    assms(4) [unfolded r]
  have "Role_toObject principalToObject (Role_new ?d ?i ?o p' ?t) =
          Return obj (Role_new ?d ?i ?o p' ?t)"
    by auto
  with n b show ?thesis by blast
qed


theorem Role_roundtrip_witness:
  "\<exists>this2 r2 r2'.
     RoleBuilder_new Inr
       (JObj [(''organizationId'', JStr ''a77a0f9a-0e6f-4a98-a169-4d1e122b39a3''),
              (''principal'', ROLE_MOCK_principal),
              (''title'', JStr ''MockOrgRoleTitle''),
              (''@class'', JStr ''com.openlattice.organization.roles.Role''),
              (''description'', JStr ''MockOrgRoleDescription''),
              (''aclKey'', JArr [JStr ''a77a0f9a-0e6f-4a98-a169-4d1e122b39a3'',
                                 JStr ''66da9306-3d1d-49d7-a8ee-8515c9c28434'']),
              (''id'', JStr ''66da9306-3d1d-49d7-a8ee-8515c9c28434'')]) = This this2 \<and>
     RoleBuilder_build this2 = Return r2 this2 \<and>
     Role_toObject (\<lambda>p. p) r2 =
       Return
         (JObj [(''organizationId'', JStr ''a77a0f9a-0e6f-4a98-a169-4d1e122b39a3''),
                (''principal'', ROLE_MOCK_principal),
                (''title'', JStr ''MockOrgRoleTitle''),
                (''@class'', JStr ''com.openlattice.organization.roles.Role''),
                (''description'', JStr ''MockOrgRoleDescription''),
                (''aclKey'', JArr [JStr ''a77a0f9a-0e6f-4a98-a169-4d1e122b39a3'',
                                   JStr ''66da9306-3d1d-49d7-a8ee-8515c9c28434'']),
                (''id'', JStr ''66da9306-3d1d-49d7-a8ee-8515c9c28434'')]) r2'"
proof -
  have n: "RoleBuilder_new Inr JUndefined = This (RoleBuilder_fields :: jsval roleBuilder)"
    by (rule RoleBuilder_new_undefined)
  have b: "Inr (r_principal ROLE_MOCK) = (Inr (r_principal ROLE_MOCK) :: error + jsval)"
    by simp
  have t: "r_principal ROLE_MOCK = r_principal ROLE_MOCK"
    by simp
  show ?thesis
    by (rule Role_roundtrip
        [of Inr JUndefined RoleBuilder_fields ROLE_MOCK_calls ROLE_MOCK_builder ROLE_MOCK
          ROLE_MOCK_builder "\<lambda>p. p" _ ROLE_MOCK "r_principal ROLE_MOCK",
         OF n ROLE_MOCK_chain ROLE_MOCK_build ROLE_MOCK_toObject b t])
qed

section \<open>Properties of the setters\<close>

text \<open>
  C5. Each setter that is guarded by a predicate throws on a defined, non-empty value
  that fails the predicate, with the message of that setter, and the builder is after
  the call what it was before it. \<open>setTitle\<close> and \<open>setOrganizationId\<close> throw on
  every value that fails the predicate; \<open>setId\<close> and \<open>setDescription\<close> on every
  one that is neither \<open>undefined\<close>, \<open>null\<close> nor the empty string; \<open>setAclKey\<close>
  and \<open>setPermissions\<close> on every one that is neither \<open>undefined\<close> nor the empty
  array.
\<close>

theorem setters_reject_invalid_values:
  "(\<not> isNonEmptyString v \<longrightarrow>
      setTitle v rb =
        Throw (Error ''invalid parameter: \"title\" must be a non-empty string'') rb) \<and>
   (\<not> isValidUUID v \<longrightarrow>
      setOrganizationId v rb =
        Throw (Error ''invalid parameter: \"organizationId\" must be a valid UUID'') rb) \<and>
   (isDefined v \<and> \<not> isEmptyString v \<and> \<not> isValidUUID v \<longrightarrow>
      setId v rb = Throw (Error ''invalid parameter: \"id\" must be a valid UUID'') rb) \<and>
   (isDefined v \<and> \<not> isEmptyString v \<and> \<not> isNonEmptyString v \<longrightarrow>
      setDescription v rb =
        Throw (Error ''invalid parameter: \"description\" must be a non-empty string'') rb) \<and>
   (\<not> isUndefined v \<and> \<not> isEmptyArray v \<and> \<not> isValidUuidArray v \<longrightarrow>
      setAclKey v ab =
        Throw (Error ''invalid parameter: aclKey must be a non-empty array of valid UUIDs'') ab) \<and>
   (\<not> isUndefined v \<and> \<not> isEmptyArray v \<and> \<not> isValidPermissionArray pt v \<longrightarrow>
      setPermissions pt v ab =
        Throw (Error ''invalid parameter: permissions must be a non-empty array of valid Permissions'') ab)"
  by (simp add: setTitle_def setOrganizationId_def setId_def setDescription_def setAclKey_def
      setPermissions_def)

theorem setters_reject_invalid_values_witness:
  "setTitle (JNum 42) (RoleBuilder_fields :: jsval roleBuilder) =
     Throw (Error ''invalid parameter: \"title\" must be a non-empty string'') RoleBuilder_fields \<and>
   setOrganizationId (JNum 42) (RoleBuilder_fields :: jsval roleBuilder) =
     Throw (Error ''invalid parameter: \"organizationId\" must be a valid UUID'') RoleBuilder_fields \<and>
   setId (JNum 42) (RoleBuilder_fields :: jsval roleBuilder) =
     Throw (Error ''invalid parameter: \"id\" must be a valid UUID'') RoleBuilder_fields \<and>
   setDescription (JNum 42) (RoleBuilder_fields :: jsval roleBuilder) =
     Throw (Error ''invalid parameter: \"description\" must be a non-empty string'') RoleBuilder_fields \<and>
   setAclKey (JNum 42) AccessCheckBuilder_new =
     Throw (Error ''invalid parameter: aclKey must be a non-empty array of valid UUIDs'')
       AccessCheckBuilder_new \<and>
   setPermissions [''READ''] (JNum 42) AccessCheckBuilder_new =
     Throw (Error ''invalid parameter: permissions must be a non-empty array of valid Permissions'')
       AccessCheckBuilder_new"
  using setters_reject_invalid_values
    [of "JNum 42" "RoleBuilder_fields :: jsval roleBuilder" AccessCheckBuilder_new "[''READ'']"]
  by (simp add: isNonEmptyString_def isDefined_def isEmptyString_def isUndefined_def
      isEmptyArray_def)

text \<open>
  C10. \<open>setDescription\<close> and \<open>setId\<close> with \<open>undefined\<close>, \<open>null\<close> or the empty
  string, and \<open>setAclKey\<close> and \<open>setPermissions\<close> with \<open>undefined\<close> or the empty
  array, throw nothing and return the builder with every field as it was.
\<close>

theorem optional_setters_skip_absent_values:
  "setDescription JUndefined rb = This rb \<and> setDescription JNull rb = This rb \<and>
   setDescription (JStr []) rb = This rb \<and>
   setId JUndefined rb = This rb \<and> setId JNull rb = This rb \<and> setId (JStr []) rb = This rb \<and>
   setAclKey JUndefined ab = This ab \<and> setAclKey (JArr []) ab = This ab \<and>
   setPermissions pt JUndefined ab = This ab \<and> setPermissions pt (JArr []) ab = This ab"
  by (simp add: setDescription_def setId_def setAclKey_def setPermissions_def isDefined_def
      isEmptyString_def isUndefined_def isEmptyArray_def)

theorem optional_setters_skip_absent_values_witness:
  "setDescription JUndefined ROLE_MOCK_builder = This ROLE_MOCK_builder \<and>
   setDescription JNull ROLE_MOCK_builder = This ROLE_MOCK_builder \<and>
   setDescription (JStr []) ROLE_MOCK_builder = This ROLE_MOCK_builder \<and>
   setId JUndefined ROLE_MOCK_builder = This ROLE_MOCK_builder \<and>
   setId JNull ROLE_MOCK_builder = This ROLE_MOCK_builder \<and>
   setId (JStr []) ROLE_MOCK_builder = This ROLE_MOCK_builder \<and>
   setAclKey JUndefined AccessCheckBuilder_new = This AccessCheckBuilder_new \<and>
   setAclKey (JArr []) AccessCheckBuilder_new = This AccessCheckBuilder_new \<and>
   setPermissions [''READ''] JUndefined AccessCheckBuilder_new = This AccessCheckBuilder_new \<and>
   setPermissions [''READ''] (JArr []) AccessCheckBuilder_new = This AccessCheckBuilder_new"
  by (rule optional_setters_skip_absent_values
      [of ROLE_MOCK_builder AccessCheckBuilder_new "[''READ'']"])

section \<open>Properties of the API wrappers\<close>


lemma allValid_list_all: "allValid pred xs = list_all pred (elements xs)"
proof -
  have "foldl (\<lambda>isValid x. isValid \<and> pred x) a ys = (a \<and> list_all pred ys)" for a ys
    by (induction ys arbitrary: a) auto
  then show ?thesis by (simp add: allValid_def)
qed



text \<open>
  C7 holds of neither function: the guard on \<open>entitySetName\<close> is written without the
  negation. With the arguments of the example in the source's own documentation, a
  valid FQN and the non-empty string \<open>MyEntityCollection\<close>, both functions return the
  rejected Promise; with \<open>undefined\<close> for the name, which is not a non-empty string,
  the request is made.
\<close>

theorem entitySetName_guard_inverted:
  "getAllEntitiesOfTypeInSet
     (JObj [(''namespace'', JStr ''LOOM''), (''name'', JStr ''MyEntity'')])
     (JStr ''MyEntityCollection'') =
     Reject ''invalid parameter: entitySetName must be a non-empty string'' \<and>
   downloadAllEntitiesOfTypeInSet
     (JObj [(''namespace'', JStr ''LOOM''), (''name'', JStr ''MyEntity'')])
     (JStr ''MyEntityCollection'') (JStr ''json'') =
     Reject ''invalid parameter: entitySetName must be a non-empty string'' \<and>
   getAllEntitiesOfTypeInSet
     (JObj [(''namespace'', JStr ''LOOM''), (''name'', JStr ''MyEntity'')]) JUndefined =
     Delegate \<lparr>req_api = DATA_API, req_method = GET,
               req_url = [JStr ''entitydata'', JStr ''LOOM'', JStr ''MyEntity'', JUndefined],
               req_data = JUndefined, req_params = []\<rparr>"
  by (simp add: getAllEntitiesOfTypeInSet_def downloadAllEntitiesOfTypeInSet_def
      isNonEmptyString_def ENTITY_DATA_PATH_def)


theorem entitySetName_guard_inverted_witness:
  "invalidParameter
     (getAllEntitiesOfTypeInSet
        (JObj [(''namespace'', JStr ''LOOM''), (''name'', JStr ''MyEntity'')])
        (JStr ''MyEntityCollection''))"
  using entitySetName_guard_inverted by simp

end
